theory Spec2Isabelle
  imports Complex_Main
begin

section \<open>Trajectory clustering by corridor tokens and LSH buckets (trajclus/apps/lsh\_clustering.py)\<close>

text \<open>
  The module \<^verbatim>\<open>lsh_clustering.py\<close> is embedded function by function. Python exceptions are
  values of \<open>error\<close> on the left of a sum; floats are read as reals. The scikit-learn,
  shapely and geopy calls the module makes are fields of the record \<open>library\<close>, so that
  every theorem holds for whatever those libraries compute; where a theorem needs a documented
  property of a library call, the property is a named predicate and a hypothesis.
\<close>

subsection \<open>Data\<close>

text \<open>The exceptions. The first five are Python's and the libraries' (\<open>GEOSException\<close> is
  shapely's); the last three are named by the specification only, and no line of the module
  raises them.\<close>

datatype error = ValueError | KeyError | IndexError | ZeroDivisionError | GEOSException
  | InvalidAlgorithmError | EmptyInputError | SilhouetteUndefinedError

type_synonym point = "real \<times> real"

type_synonym coords = "point list"

text \<open>A fitted \<^verbatim>\<open>sklearn.cluster.KMeans\<close> estimator: the constructor arguments the module passes
  and the attributes it reads (\<^verbatim>\<open>cluster_centers_\<close>, \<^verbatim>\<open>labels_\<close>).\<close>

record kmeans =
  n_clusters :: nat
  random_state :: nat
  cluster_centers :: coords
  kmeans_labels :: "nat list"

text \<open>A \<^verbatim>\<open>sklearn.cluster.DBSCAN\<close> estimator: the constructor arguments of line 41 and the
  \<^verbatim>\<open>labels_\<close> that \<^verbatim>\<open>fit\<close> sets.\<close>

record dbscan =
  eps :: real
  min_samples :: nat
  algorithm :: string
  metric :: string
  db_labels :: "int list"

text \<open>The external calls. \<open>KMeans_fit k seed X\<close> is \<^verbatim>\<open>KMeans(n_clusters=k, random_state=seed).fit(X)\<close>;
  \<open>KMeans_predict m p\<close> is the label \<^verbatim>\<open>m.predict\<close> gives the row \<open>p\<close>;
  \<open>DBSCAN_fit db X\<close> is the \<^verbatim>\<open>labels_\<close> of \<^verbatim>\<open>db.fit(X)\<close>; \<open>MultiPoint_centroid\<close> is shapely's centroid,
  \<open>great_circle_m\<close> geopy's distance in metres (geopy raises on a latitude outside the range), \<open>silhouette_score\<close> scikit-learn's score on a
  precomputed matrix, and \<open>KM_PER_RADIAN\<close> the constant imported from
  \<^verbatim>\<open>trajclus.lib.geometric_utils\<close>.\<close>

record library =
  KMeans_fit :: "nat \<Rightarrow> nat \<Rightarrow> coords \<Rightarrow> error + kmeans"
  KMeans_predict :: "kmeans \<Rightarrow> point \<Rightarrow> nat"
  DBSCAN_fit :: "dbscan \<Rightarrow> coords \<Rightarrow> error + int list"
  MultiPoint_centroid :: "coords \<Rightarrow> point"
  great_circle_m :: "point \<Rightarrow> point \<Rightarrow> error + real"
  silhouette_score :: "real list list \<Rightarrow> int list \<Rightarrow> error + real"
  KM_PER_RADIAN :: real

text \<open>What \<^verbatim>\<open>detect_entrance_ways\<close> returns as its second component: \<^verbatim>\<open>False\<close> or a fitted
  estimator.\<close>

datatype classifier = PyFalse | KMeansClassifier kmeans | DBSCANClassifier dbscan

text \<open>The value of a call of \<^verbatim>\<open>detect_entrance_ways\<close>: a pair, or \<^verbatim>\<open>None\<close> when the body falls
  off its end.\<close>

datatype ways = Ways coords classifier | PyNone

subsection \<open>Helpers for exceptions and Python built-ins\<close>

text \<open>A list comprehension whose body may raise: the first exception ends it.\<close>

fun collect :: "('e + 'a) list \<Rightarrow> 'e + 'a list" where
  "collect [] = Inr []"
| "collect (Inl e # rs) = Inl e"
| "collect (Inr v # rs) = (case collect rs of Inl e \<Rightarrow> Inl e | Inr vs \<Rightarrow> Inr (v # vs))"

text \<open>\<^verbatim>\<open>min(iterable, key=f)\<close> on a non-empty iterable: the first element with the least key.\<close>

fun min_by :: "('a \<Rightarrow> real) \<Rightarrow> 'a \<Rightarrow> 'a list \<Rightarrow> 'a" where
  "min_by f m [] = m"
| "min_by f m (x # xs) = min_by f (if f x < f m then x else m) xs"

text \<open>\<^verbatim>\<open>np.radians\<close> on an array of coordinate pairs.\<close>

definition radians :: "coords \<Rightarrow> coords" where
  "radians X = map (\<lambda>(a, b). (a * pi / 180, b * pi / 180)) X"

subsection \<open>Corridor detection (lines 22--95)\<close>

text \<open>\<^verbatim>\<open>get_centermost_point\<close> (lines 64--68). On an empty cluster line 65 raises: shapely's
  centroid of no points has no coordinates (a \<^verbatim>\<open>GEOSException\<close>; an \<^verbatim>\<open>IndexError\<close> in other
  versions of shapely). \<^verbatim>\<open>min\<close> computes the key of every point in order, so the first
  distance that raises ends the call; the keys are paired with their points.\<close>

definition get_centermost_point :: "library \<Rightarrow> coords \<Rightarrow> error + point" where
  "get_centermost_point lib cluster =
     (case cluster of
        [] \<Rightarrow> Inl GEOSException
      | p # ps \<Rightarrow>
          (let centroid = MultiPoint_centroid lib cluster
           in case collect (map (\<lambda>point. great_circle_m lib point centroid) cluster) of
                Inl e \<Rightarrow> Inl e
              | Inr keys \<Rightarrow> Inr (fst (min_by snd (p, hd keys) (zip ps (tl keys))))))"

text \<open>The constructor call \<^verbatim>\<open>DBSCAN(eps=..., min_samples=..., algorithm=..., metric=...)\<close>.\<close>

definition DBSCAN :: "real \<Rightarrow> nat \<Rightarrow> string \<Rightarrow> string \<Rightarrow> dbscan" where
  "DBSCAN e m a me = \<lparr>eps = e, min_samples = m, algorithm = a, metric = me, db_labels = []\<rparr>"

text \<open>Lines 41--50 of \<^verbatim>\<open>dbscan_clustering\<close>, from the estimator \<open>db0\<close> that line 41 constructs:
  fit on the coordinates in radians, group the coordinates by label \<open>0 .. num_clusters - 1\<close>
  (a boolean mask of another length than the array raises), take each group's centermost
  point.\<close>

definition dbscan_fit_centers :: "library \<Rightarrow> dbscan \<Rightarrow> coords \<Rightarrow> error + (coords \<times> dbscan)" where
  "dbscan_fit_centers lib db0 coords =
     (case DBSCAN_fit lib db0 (radians coords) of
        Inl e \<Rightarrow> Inl e
      | Inr ls \<Rightarrow>
          (let db = db0\<lparr>db_labels := ls\<rparr>;
               cluster_labels = db_labels db;
               num_clusters = length (remdups cluster_labels)
           in if length cluster_labels \<noteq> length coords \<and> 0 < num_clusters then Inl IndexError
              else
                (case collect (map (\<lambda>n. get_centermost_point lib
                         (map fst (filter (\<lambda>(c, l). l = int n) (zip coords cluster_labels))))
                       [0 ..< num_clusters]) of
                   Inl e \<Rightarrow> Inl e
                 | Inr centers \<Rightarrow> Inr (centers, db))))"

text \<open>\<^verbatim>\<open>dbscan_clustering\<close> (lines 22--50). \<open>epsilon\<close> is \<open>None\<close> for Python's \<^verbatim>\<open>None\<close>;
  \<^verbatim>\<open>not epsilon\<close> holds of \<^verbatim>\<open>None\<close> and of zero. Dividing by a zero constant raises.\<close>

definition dbscan_clustering ::
  "library \<Rightarrow> coords \<Rightarrow> nat \<Rightarrow> real \<Rightarrow> real option \<Rightarrow> error + (coords \<times> dbscan)" where
  "dbscan_clustering lib coords min_sample max_distance epsilon =
     (if epsilon = None \<or> epsilon = Some 0
      then (if KM_PER_RADIAN lib = 0 then Inl ZeroDivisionError
            else dbscan_fit_centers lib
                   (DBSCAN (max_distance / KM_PER_RADIAN lib) min_sample ''ball_tree'' ''haversine'')
                   coords)
      else dbscan_fit_centers lib
             (DBSCAN (the epsilon) min_sample ''ball_tree'' ''haversine'') coords)"

text \<open>\<^verbatim>\<open>kmeans_clustering\<close> (lines 53--61): the seed passed to the library is the literal 0, and
  the centres returned are the estimator's \<^verbatim>\<open>cluster_centers_\<close>. (The number of distinct labels
  is only printed.)\<close>

definition kmeans_clustering :: "library \<Rightarrow> coords \<Rightarrow> nat \<Rightarrow> error + (coords \<times> kmeans)" where
  "kmeans_clustering lib coords k_cluster =
     (case KMeans_fit lib k_cluster 0 coords of
        Inl e \<Rightarrow> Inl e
      | Inr km \<Rightarrow> Inr (cluster_centers km, km))"

text \<open>\<^verbatim>\<open>detect_entrance_ways\<close> (lines 80--95).\<close>

definition detect_entrance_ways :: "library \<Rightarrow> coords \<Rightarrow> string \<Rightarrow> error + ways" where
  "detect_entrance_ways lib point_coords algo =
     (if algo \<notin> set [''k-means'', ''dbscan''] then Inr (Ways [] PyFalse)
      else if algo = ''k-means'' then
        (let estimated_n_entrance = 9
         in case kmeans_clustering lib point_coords estimated_n_entrance of
              Inl e \<Rightarrow> Inl e
            | Inr (centers, km) \<Rightarrow> Inr (Ways centers (KMeansClassifier km)))
      else if algo = ''dbscan'' then
        (case dbscan_clustering lib point_coords 1 30 None of
           Inl e \<Rightarrow> Inl e
         | Inr (centers, db) \<Rightarrow> Inr (Ways centers (DBSCANClassifier db)))
      else Inr PyNone)"

subsection \<open>Bucket reduction (lines 195--210 of \<^verbatim>\<open>main\<close>)\<close>

text \<open>\<^verbatim>\<open>Series.unique()\<close>: the distinct values in order of first appearance.\<close>

fun unique :: "'a list \<Rightarrow> 'a list" where
  "unique [] = []"
| "unique (x # xs) = x # filter (\<lambda>y. y \<noteq> x) (unique xs)"

text \<open>\<^verbatim>\<open>list.index(x)\<close>: the first position of \<open>x\<close>, \<^verbatim>\<open>ValueError\<close> when there is none.\<close>

fun list_index :: "'a list \<Rightarrow> 'a \<Rightarrow> error + nat" where
  "list_index [] x = Inl ValueError"
| "list_index (y # ys) x =
     (if y = x then Inr 0
      else (case list_index ys x of Inl e \<Rightarrow> Inl e | Inr i \<Rightarrow> Inr (Suc i)))"

text \<open>\<^verbatim>\<open>groupby(col).size().to_dict()\<close>: each value of the column with the number of rows holding it.\<close>

definition groupby_size :: "'a list \<Rightarrow> ('a \<rightharpoonup> nat)" where
  "groupby_size xs = (\<lambda>k. if k \<in> set xs then Some (count_list xs k) else None)"

text \<open>\<^verbatim>\<open>convert_to_cluster_number\<close> (lines 201--204); a missing dictionary key raises.\<close>

definition convert_to_cluster_number ::
  "'a \<Rightarrow> 'a list \<Rightarrow> ('a \<rightharpoonup> nat) \<Rightarrow> error + int" where
  "convert_to_cluster_number bucket_label unique_buckets n_curve_per_bucket =
     (case n_curve_per_bucket bucket_label of
        None \<Rightarrow> Inl KeyError
      | Some n \<Rightarrow>
          if n \<le> 5 then Inr (- 1)
          else (case list_index unique_buckets bucket_label of
                  Inl e \<Rightarrow> Inl e
                | Inr i \<Rightarrow> Inr (int i)))"

text \<open>Lines 195--209: \<open>buckets\<close> is the column \<^verbatim>\<open>flight_df['buckets']\<close>, one key per record; the
  result is the list \<^verbatim>\<open>cluster_labels\<close>.\<close>

definition cluster_labels :: "'a list \<Rightarrow> error + int list" where
  "cluster_labels buckets =
     (let unique_buckets = unique buckets;
          n_curve_per_bucket = groupby_size buckets
      in collect (map (\<lambda>bucket. convert_to_cluster_number bucket unique_buckets n_curve_per_bucket)
                    buckets))"

text \<open>Vocabulary of the statements: the position of the first occurrence of a value in a list,
  and the distinct bucket keys whose population exceeds 5, in order of first occurrence.\<close>

definition first_occurrence :: "'a list \<Rightarrow> 'a \<Rightarrow> nat" where
  "first_occurrence xs a = length (takeWhile (\<lambda>y. y \<noteq> a) xs)"

definition surviving :: "'a list \<Rightarrow> 'a list" where
  "surviving buckets = filter (\<lambda>k. 5 < count_list buckets k) (unique buckets)"

subsection \<open>Trajectory simplification (\<^verbatim>\<open>simplify_coordinator\<close>, called at line 139)\<close>

text \<open>Modelled from the spec: \<^verbatim>\<open>simplify_coordinator\<close> is imported from
  \<^verbatim>\<open>trajclus.lib.geometric_utils\<close>, which is not among the sources. Section 4.2 of the
  specification describes it: the output is a subsequence of the input that keeps the endpoints
  and, recursively, the point of maximum perpendicular deviation from the chord when that
  deviation exceeds the tolerance (a Douglas-Peucker reduction). Among several points of maximal
  deviation the first is taken. \<open>argmax_first f ys\<close> is the position of the first element of
  \<open>ys\<close> with the greatest \<open>f\<close>; \<open>dp_inner d e a ys b\<close> is what is kept of the points \<open>ys\<close>
  strictly between the endpoints \<open>a\<close> and \<open>b\<close>, for the deviation \<open>d a b\<close>.\<close>

fun argmax_first :: "('a \<Rightarrow> real) \<Rightarrow> 'a list \<Rightarrow> nat" where
  "argmax_first f [] = 0"
| "argmax_first f [x] = 0"
| "argmax_first f (x # y # ys) =
     (let j = argmax_first f (y # ys) in if f ((y # ys) ! j) \<le> f x then 0 else Suc j)"

function dp_inner :: "('a \<Rightarrow> 'a \<Rightarrow> 'a \<Rightarrow> real) \<Rightarrow> real \<Rightarrow> 'a \<Rightarrow> 'a list \<Rightarrow> 'a \<Rightarrow> 'a list" where
  "dp_inner d e a ys b =
     (if ys = [] then []
      else (let j = argmax_first (d a b) ys; m = ys ! j
            in if e < d a b m
               then dp_inner d e a (take j ys) m @ [m] @ dp_inner d e m (drop (Suc j) ys) b
               else []))"
  by pat_completeness auto
termination
proof (relation "measure (\<lambda>(d, e, a, ys, b). length ys)", goal_cases)
  case 1
  show ?case by simp
next
  case (2 d e a ys b j m)
  have "zs \<noteq> [] \<Longrightarrow> argmax_first f zs < length zs" for f and zs :: "'a list"
    by (induction f zs rule: argmax_first.induct) (auto simp: Let_def)
  with 2 show ?case by simp
next
  case (3 d e a ys b j m)
  then show ?case by simp
qed

declare dp_inner.simps [simp del]

text \<open>Modelled from the spec: the reduction of a whole sequence keeps both endpoints; a sequence
  of fewer than three points has nothing to drop.\<close>

definition douglas_peucker :: "('a \<Rightarrow> 'a \<Rightarrow> 'a \<Rightarrow> real) \<Rightarrow> real \<Rightarrow> 'a list \<Rightarrow> 'a list" where
  "douglas_peucker d e xs =
     (if length xs < 3 then xs
      else hd xs # dp_inner d e (hd xs) (butlast (tl xs)) (last xs) @ [last xs])"

text \<open>Modelled from the spec: the perpendicular deviation of the point \<open>p\<close> from the chord
  \<open>a b\<close> in the plane of the coordinates (the distance to \<open>a\<close> when the chord is a point).\<close>

definition perpendicular_distance :: "point \<Rightarrow> point \<Rightarrow> point \<Rightarrow> real" where
  "perpendicular_distance a b p =
     (if a = b then sqrt ((fst p - fst a)\<^sup>2 + (snd p - snd a)\<^sup>2)
      else \<bar>(fst b - fst a) * (snd a - snd p) - (fst a - fst p) * (snd b - snd a)\<bar>
             / sqrt ((fst b - fst a)\<^sup>2 + (snd b - snd a)\<^sup>2))"

text \<open>Modelled from the spec: \<^verbatim>\<open>simplify_coordinator(coord_curve, epsilon)\<close>, as line 139 calls
  it.\<close>

definition simplify_coordinator :: "coords \<Rightarrow> real \<Rightarrow> coords" where
  "simplify_coordinator coord_curve epsilon = douglas_peucker perpendicular_distance epsilon coord_curve"

subsection \<open>Tokenisation (lines 133--141 and 157--173 of \<^verbatim>\<open>main\<close>)\<close>

text \<open>A row of the data frame \<^verbatim>\<open>entrance_to_airport\<close>, with the columns the module reads.\<close>

record track_point =
  Flight_ID :: string
  DRemains :: real
  Latitude :: real
  Longitude :: real

text \<open>Lines 135--136: the rows of one flight, sorted by \<^verbatim>\<open>DRemains\<close> in descending order
  (rows of equal \<^verbatim>\<open>DRemains\<close> are kept in their order here; pandas leaves their order open).\<close>

definition entrance_rows :: "track_point list \<Rightarrow> string \<Rightarrow> track_point list" where
  "entrance_rows entrance_to_airport fid =
     (let tmp_df = filter (\<lambda>r. Flight_ID r = fid) entrance_to_airport
      in sort_key (\<lambda>r. - DRemains r) tmp_df)"

text \<open>Line 137: the coordinates of those rows.\<close>

definition entrance_trajectory :: "track_point list \<Rightarrow> string \<Rightarrow> coords" where
  "entrance_trajectory entrance_to_airport fid =
     map (\<lambda>r. (Latitude r, Longitude r)) (entrance_rows entrance_to_airport fid)"

text \<open>\<^verbatim>\<open>"{}".format(c)\<close> for an integer \<open>c\<close>: its decimal digits, after a minus sign when it is
  negative.\<close>

definition digit_char :: "nat \<Rightarrow> char" where
  "digit_char n = ''0123456789'' ! n"

function str_nat :: "nat \<Rightarrow> string" where
  "str_nat n = (if n < 10 then [digit_char n] else str_nat (n div 10) @ [digit_char (n mod 10)])"
  by pat_completeness auto
termination
  by (relation "measure id") auto

declare str_nat.simps [simp del]

definition str_int :: "int \<Rightarrow> string" where
  "str_int i = (if i < 0 then CHR ''-'' # str_nat (nat (- i)) else str_nat (nat i))"

text \<open>Lines 160--167, for one trajectory, with the fitted k-means classifier
  (\<^verbatim>\<open>detect_entrance_algo\<close> is the literal \<^verbatim>\<open>'k-means'\<close> at line 148): the label of each point of
  the entrance trajectory, or the single label \<open>-1\<close> for a trajectory of fewer than two points.\<close>

definition entrance_group :: "library \<Rightarrow> kmeans \<Rightarrow> coords \<Rightarrow> int list" where
  "entrance_group lib classifier traj =
     (if 1 < length traj then map (\<lambda>p. int (KMeans_predict lib classifier p)) traj else [- 1])"

text \<open>Lines 172--173: \<^verbatim>\<open>["G{}".format(c) for c in clusters]\<close>.\<close>

definition group_labels :: "int list \<Rightarrow> string list" where
  "group_labels clusters = map (\<lambda>c. ''G'' @ str_int c) clusters"

text \<open>The token sequence of one trajectory: the entry of the column \<^verbatim>\<open>groups\<close> after line 173.\<close>

definition tokens :: "library \<Rightarrow> kmeans \<Rightarrow> coords \<Rightarrow> string list" where
  "tokens lib classifier traj = group_labels (entrance_group lib classifier traj)"

subsection \<open>MinHash signatures and the LSH index (\<^verbatim>\<open>LSHClusteringLib\<close>, lines 177--193)\<close>

text \<open>Modelled from the spec: the class \<^verbatim>\<open>LSHClusteringLib\<close> is imported from
  \<^verbatim>\<open>trajclus.lib.lsh_lib\<close>, which is not among the sources. Section 4.4 of the specification
  describes it. The configuration is the family of hash permutations (\<open>num_perm\<close> of them), the
  split of a signature into \<open>bands\<close> bands of \<open>rows_per_band\<close> rows, and the hash of a band.\<close>

record lsh =
  perms :: "(string \<Rightarrow> nat) list"
  bands :: nat
  rows_per_band :: nat
  band_hash :: "nat list \<Rightarrow> nat"

text \<open>Modelled from the spec: \<^verbatim>\<open>signature(token_set)\<close> is, for each permutation, the minimum
  hashed value over the token set; it depends on the set's contents only. (The value for an empty
  token list is 0 here; the specification leaves it open.)\<close>

definition min_hash :: "(string \<Rightarrow> nat) \<Rightarrow> string list \<Rightarrow> nat" where
  "min_hash h ts = (case map h ts of [] \<Rightarrow> 0 | v # vs \<Rightarrow> fold min vs v)"

definition signature :: "lsh \<Rightarrow> string list \<Rightarrow> nat list" where
  "signature l ts = map (\<lambda>h. min_hash h ts) (perms l)"

text \<open>Modelled from the spec: the hash of the \<open>i\<close>-th band of a signature.\<close>

definition band :: "lsh \<Rightarrow> nat list \<Rightarrow> nat \<Rightarrow> nat" where
  "band l sig i = band_hash l (take (rows_per_band l) (drop (i * rows_per_band l) sig))"

text \<open>Modelled from the spec: the index maps a band-hash to the record ids registered under
  it. \<^verbatim>\<open>insert\<close> registers the record under the hash of each band of its signature; \<^verbatim>\<open>query\<close>
  returns every inserted record id that shares at least one band-hash with the signature, each
  once, in a fixed order.\<close>

type_synonym lsh_index = "nat \<Rightarrow> string list"

definition insert_record :: "lsh \<Rightarrow> string \<Rightarrow> nat list \<Rightarrow> lsh_index \<Rightarrow> lsh_index" where
  "insert_record l record_id sig idx =
     fold (\<lambda>i ix. ix (band l sig i :=
                      (if record_id \<in> set (ix (band l sig i)) then ix (band l sig i)
                       else ix (band l sig i) @ [record_id])))
       [0 ..< bands l] idx"

definition query :: "lsh \<Rightarrow> lsh_index \<Rightarrow> nat list \<Rightarrow> string list" where
  "query l idx sig = remdups (concat (map (\<lambda>i. idx (band l sig i)) [0 ..< bands l]))"

text \<open>Modelled from the spec: \<^verbatim>\<open>compute_min_hash_lsh_over_data\<close> (line 181) computes the signature
  of every record's token list and inserts every record into an empty index; it returns the
  signatures, and the index stays in the object. \<^verbatim>\<open>query_duplicated_record\<close> queries that index;
  line 187 calls it with a record's signature.\<close>

definition compute_min_hash_lsh_over_data ::
  "lsh \<Rightarrow> string list \<Rightarrow> string list list \<Rightarrow> lsh_index \<times> nat list list" where
  "compute_min_hash_lsh_over_data l record_ids data =
     (let hashes = map (signature l) data;
          idx = fold (\<lambda>(record_id, sig) ix. insert_record l record_id sig ix)
                  (zip record_ids hashes) (\<lambda>h. [])
      in (idx, hashes))"

definition query_duplicated_record :: "lsh \<Rightarrow> lsh_index \<Rightarrow> nat list \<Rightarrow> string list" where
  "query_duplicated_record l idx x = query l idx x"

text \<open>\<^verbatim>\<open>sep.join(xs)\<close> on strings.\<close>

fun join :: "string \<Rightarrow> string list \<Rightarrow> string" where
  "join sep [] = []"
| "join sep [x] = x"
| "join sep (x # y # ys) = x @ sep @ join sep (y # ys)"

text \<open>Lines 181--193 of \<^verbatim>\<open>main\<close>: the columns \<^verbatim>\<open>hash\<close>, \<^verbatim>\<open>duplicated\<close> and \<^verbatim>\<open>buckets\<close> of the data
  frame, from the columns \<^verbatim>\<open>idx\<close> (\<open>record_ids\<close>) and \<^verbatim>\<open>groups\<close>.\<close>

definition hash_column :: "lsh \<Rightarrow> string list \<Rightarrow> string list list \<Rightarrow> nat list list" where
  "hash_column l record_ids groups = snd (compute_min_hash_lsh_over_data l record_ids groups)"

definition duplicated_column :: "lsh \<Rightarrow> string list \<Rightarrow> string list list \<Rightarrow> string list list" where
  "duplicated_column l record_ids groups =
     (let (idx, hashes) = compute_min_hash_lsh_over_data l record_ids groups
      in map (\<lambda>x. query_duplicated_record l idx x) hashes)"

definition buckets_column :: "lsh \<Rightarrow> string list \<Rightarrow> string list list \<Rightarrow> string list" where
  "buckets_column l record_ids groups =
     map (\<lambda>x. join ''_'' x) (duplicated_column l record_ids groups)"

text \<open>A small configuration and seven records to run the pipeline on: six flights whose token
  lists have the set \<open>{G1, G2, G3}\<close>, and a seventh with \<open>{G9}\<close>.\<close>

definition demo_lsh :: lsh where
  "demo_lsh = \<lparr>perms = [\<lambda>t. of_char (last t), \<lambda>t. 200 - of_char (last t)], bands = 2, rows_per_band = 1,
      band_hash = sum_list\<rparr>"

definition demo_groups :: "string list list" where
  "demo_groups = [[''G1'', ''G2'', ''G3''], [''G3'', ''G2'', ''G1''], [''G1'', ''G1'', ''G2'', ''G3''],
     [''G2'', ''G3'', ''G1''], [''G1'', ''G2'', ''G3'', ''G3''], [''G3'', ''G1'', ''G2''], [''G9'']]"

definition demo_ids :: "string list" where
  "demo_ids = [''0'', ''1'', ''2'', ''3'', ''4'', ''5'', ''6'']"

subsection \<open>Evaluation (lines 71--77, called at line 225)\<close>

text \<open>\<^verbatim>\<open>compute_silhouette_score\<close> (lines 71--77) hands the matrix and the labels, as they are,
  to scikit-learn's \<^verbatim>\<open>silhouette_score\<close> with \<^verbatim>\<open>metric='precomputed'\<close>.\<close>

definition compute_silhouette_score :: "library \<Rightarrow> real list list \<Rightarrow> int list \<Rightarrow> error + real" where
  "compute_silhouette_score lib feature_matrix labels = silhouette_score lib feature_matrix labels"

subsection \<open>Documented behaviour of the external calls\<close>

text \<open>scikit-learn's \<^verbatim>\<open>KMeans.fit\<close> refuses a sample smaller than the number of clusters
  (\<^verbatim>\<open>ValueError: n_samples=... should be >= n_clusters=...\<close>); a fit that succeeds has one row of
  \<^verbatim>\<open>cluster_centers_\<close> per cluster.\<close>

definition KMeans_contract :: "library \<Rightarrow> bool" where
  "KMeans_contract lib \<longleftrightarrow>
     (\<forall>k seed X.
        (length X < k \<longrightarrow> KMeans_fit lib k seed X = Inl ValueError) \<and>
        (0 < k \<and> k \<le> length X \<longrightarrow>
           (\<exists>m. KMeans_fit lib k seed X = Inr m \<and> length (cluster_centers m) = k)))"

text \<open>A distance matrix for \<open>n\<close> records: square, non-negative, zero on the diagonal.\<close>

definition valid_distance_matrix :: "real list list \<Rightarrow> nat \<Rightarrow> bool" where
  "valid_distance_matrix X n \<longleftrightarrow>
     length X = n \<and> (\<forall>i<n. length (X ! i) = n \<and> X ! i ! i = 0 \<and> (\<forall>j<n. 0 \<le> X ! i ! j))"

text \<open>scikit-learn's \<^verbatim>\<open>silhouette_score\<close> accepts a labelling when the number of distinct
  labels lies between 2 and the number of samples minus 1 (\<^verbatim>\<open>ValueError: Number of labels is ...
  Valid values are 2 to n_samples - 1 (inclusive)\<close> otherwise); every label counts, the label
  \<open>-1\<close> as any other. On a distance matrix and an accepted labelling its score lies in
  \<open>[-1, 1]\<close>.\<close>

definition admissible_labels :: "int list \<Rightarrow> bool" where
  "admissible_labels labels \<longleftrightarrow>
     2 \<le> length (remdups labels) \<and> length (remdups labels) < length labels"

definition silhouette_contract :: "library \<Rightarrow> bool" where
  "silhouette_contract lib \<longleftrightarrow>
     (\<forall>X labels. valid_distance_matrix X (length labels) \<longrightarrow>
        (if admissible_labels labels
         then \<exists>s. silhouette_score lib X labels = Inr s \<and> - 1 \<le> s \<and> s \<le> 1
         else silhouette_score lib X labels = Inl ValueError))"

text \<open>The distance matrix of \<open>n\<close> coinciding records.\<close>

definition zero_matrix :: "nat \<Rightarrow> real list list" where
  "zero_matrix n = replicate n (replicate n 0)"

text \<open>A stand-in for the external libraries, to run the module on concrete inputs: k-means keeps
  the first \<open>k\<close> points as centres, DBSCAN puts every point in a cluster of its own, the centroid
  is the first point, the distance is the Manhattan one (an error for a latitude outside
  \<open>[-90, 90]\<close>), the silhouette of any admissible labelling is 0. In \<open>probe_library r\<close> DBSCAN
  fits only an estimator of radius \<open>r\<close> and raises on any other: a run that succeeds shows
  which radius the module handed to the library.\<close>

definition stub_library :: library where
  "stub_library =
     \<lparr>KMeans_fit = (\<lambda>k seed X.
          if k = 0 \<or> length X < k then Inl ValueError
          else Inr \<lparr>n_clusters = k, random_state = seed, cluster_centers = take k X,
                    kmeans_labels = map (\<lambda>i. i mod k) [0 ..< length X]\<rparr>),
      KMeans_predict = (\<lambda>m p. 0),
      DBSCAN_fit = (\<lambda>db X. if eps db \<le> 0 then Inl ValueError else Inr (map int [0 ..< length X])),
      MultiPoint_centroid = (\<lambda>c. case c of [] \<Rightarrow> (0, 0) | p # ps \<Rightarrow> p),
      great_circle_m = (\<lambda>p q.
          if \<bar>fst p\<bar> \<le> 90 \<and> \<bar>fst q\<bar> \<le> 90
          then Inr (\<bar>fst p - fst q\<bar> + \<bar>snd p - snd q\<bar>) else Inl ValueError),
      silhouette_score = (\<lambda>X labels. if admissible_labels labels then Inr 0 else Inl ValueError),
      KM_PER_RADIAN = 63710088 / 10000\<rparr>"

definition probe_library :: "real \<Rightarrow> library" where
  "probe_library r =
     stub_library\<lparr>DBSCAN_fit :=
       (\<lambda>db X. if eps db = r then Inr (map int [0 ..< length X]) else Inl ValueError)\<rparr>"

section \<open>Theorems\<close>

subsection \<open>Corridor detection\<close>

lemma stub_KMeans_contract: "KMeans_contract stub_library"
  by (simp add: KMeans_contract_def stub_library_def)

text \<open>Claim C1, as amended. For every point pool and every selector other than \<^verbatim>\<open>'k-means'\<close> and
  \<^verbatim>\<open>'dbscan'\<close>, \<^verbatim>\<open>detect_entrance_ways\<close> raises nothing: the guard of lines 81--82 returns the
  pair \<^verbatim>\<open>([], False)\<close>, an empty corridor list and no classifier, before any library call.\<close>

theorem detect_entrance_ways_unrecognised:
  "algo \<noteq> ''k-means'' \<Longrightarrow> algo \<noteq> ''dbscan'' \<Longrightarrow>
   detect_entrance_ways lib point_coords algo = Inr (Ways [] PyFalse)"
  by (simp add: detect_entrance_ways_def)

text \<open>The theorem at the selector \<^verbatim>\<open>'optics'\<close>.\<close>

theorem detect_entrance_ways_unrecognised_witness:
  "\<forall>lib. detect_entrance_ways lib [(1, 2), (3, 4)] ''optics'' = Inr (Ways [] PyFalse)"
  using detect_entrance_ways_unrecognised [of "''optics''"] by simp

text \<open>Claim C1 as stated (an unrecognised selector fails with \<^verbatim>\<open>InvalidAlgorithmError\<close> and never
  yields an empty corridor set) is false at the pool \<open>[(1, 2), (3, 4)]\<close> and the selector
  \<^verbatim>\<open>'optics'\<close>, whatever the libraries do.\<close>

theorem detect_entrance_ways_not_fail_fast:
  "\<forall>lib. detect_entrance_ways lib [(1, 2), (3, 4)] ''optics'' \<noteq> Inl InvalidAlgorithmError
       \<and> detect_entrance_ways lib [(1, 2), (3, 4)] ''optics'' = Inr (Ways [] PyFalse)"
  by (simp add: detect_entrance_ways_def)

text \<open>Claim C8, as amended. With a k-means library that meets \<open>KMeans_contract\<close>:
  \<^verbatim>\<open>kmeans_clustering\<close> with parameter \<open>k > 0\<close> returns exactly \<open>k\<close> centres when the pool holds at
  least \<open>k\<close> points and raises \<^verbatim>\<open>ValueError\<close> when it holds fewer; \<^verbatim>\<open>detect_entrance_ways\<close> in
  k-means mode always asks for 9, so it returns exactly 9 centres on a pool of at least 9 points
  and raises on a smaller one.\<close>

theorem kmeans_clustering_centers:
  assumes "KMeans_contract lib"
  shows "(0 < k \<and> k \<le> length coords \<longrightarrow>
            (\<exists>centers km. kmeans_clustering lib coords k = Inr (centers, km) \<and> length centers = k))
       \<and> (length coords < k \<longrightarrow> kmeans_clustering lib coords k = Inl ValueError)
       \<and> (9 \<le> length coords \<longrightarrow>
            (\<exists>centers km. detect_entrance_ways lib coords ''k-means''
                 = Inr (Ways centers (KMeansClassifier km)) \<and> length centers = 9))
       \<and> (length coords < 9 \<longrightarrow> detect_entrance_ways lib coords ''k-means'' = Inl ValueError)"
proof -
  have fit: "0 < k \<and> k \<le> length coords \<longrightarrow>
      (\<exists>centers km. kmeans_clustering lib coords k = Inr (centers, km) \<and> length centers = k)" for k
  proof
    assume "0 < k \<and> k \<le> length coords"
    with assms obtain m where "KMeans_fit lib k 0 coords = Inr m" "length (cluster_centers m) = k"
      unfolding KMeans_contract_def by blast
    then show "\<exists>centers km. kmeans_clustering lib coords k = Inr (centers, km) \<and> length centers = k"
      by (simp add: kmeans_clustering_def)
  qed
  have fail: "length coords < k \<longrightarrow> kmeans_clustering lib coords k = Inl ValueError" for k
    using assms unfolding KMeans_contract_def by (simp add: kmeans_clustering_def)
  have d1: "9 \<le> length coords \<longrightarrow>
            (\<exists>centers km. detect_entrance_ways lib coords ''k-means''
                 = Inr (Ways centers (KMeansClassifier km)) \<and> length centers = 9)"
    using fit [of 9] by (auto simp: detect_entrance_ways_def)
  have d2: "length coords < 9 \<longrightarrow> detect_entrance_ways lib coords ''k-means'' = Inl ValueError"
    using fail [of 9] by (auto simp: detect_entrance_ways_def)
  from fit fail d1 d2 show ?thesis by blast
qed

text \<open>The theorem at a pool of three points, with the stand-in library: two centres for
  \<open>k = 2\<close>, an error for \<open>k = 4\<close> and for the module's own \<open>k =
  9\<close>.\<close>

theorem kmeans_clustering_centers_witness:
  "(\<exists>centers km. kmeans_clustering stub_library [(1, 2), (3, 4), (5, 6)] 2 = Inr (centers, km)
        \<and> length centers = 2)
   \<and> kmeans_clustering stub_library [(1, 2), (3, 4), (5, 6)] 4 = Inl ValueError
   \<and> detect_entrance_ways stub_library [(1, 2), (3, 4), (5, 6)] ''k-means'' = Inl ValueError"
  using kmeans_clustering_centers [OF stub_KMeans_contract, of 2 "[(1, 2), (3, 4), (5, 6)]"]
        kmeans_clustering_centers [OF stub_KMeans_contract, of 4 "[(1, 2), (3, 4), (5, 6)]"]
  by simp

text \<open>Claim C8 as stated (every non-empty pool gives exactly \<open>k\<close> centres) is false at the pool
  \<open>[(1, 2), (3, 4)]\<close> and \<open>k = 9\<close>, the module's own \<open>k\<close>: no library that meets the contract
  returns 9 centres there.\<close>

theorem kmeans_clustering_small_pool:
  "\<not> (\<exists>lib. KMeans_contract lib \<and>
         (\<exists>centers km. kmeans_clustering lib [(1, 2), (3, 4)] 9 = Inr (centers, km)
             \<and> length centers = 9))"
  by (auto simp: KMeans_contract_def kmeans_clustering_def split: sum.splits)

text \<open>Claim C10, as amended. \<^verbatim>\<open>dbscan_clustering\<close> treats a falsy \<open>epsilon\<close> as unset: called with
  \<^verbatim>\<open>epsilon=None\<close> or \<^verbatim>\<open>epsilon=0\<close> (and a non-zero constant \<^verbatim>\<open>KM_PER_RADIAN\<close>), for every
  \<open>coords\<close>, \<open>min_sample\<close> and \<open>max_distance\<close>, the estimator it fits is the one of radius
  \<open>max_distance / KM_PER_RADIAN\<close>, not of the value passed: an exception of the library's fit
  of that estimator on the coordinates in radians is the exception of the call, and a call that
  returns gives back that estimator with the labels of that fit. The radius is zero when
  \<open>max_distance\<close> is zero.\<close>

theorem dbscan_clustering_falsy_epsilon:
  assumes "epsilon = None \<or> epsilon = Some 0" and "KM_PER_RADIAN lib \<noteq> 0"
  shows "(\<forall>e. DBSCAN_fit lib
                (DBSCAN (max_distance / KM_PER_RADIAN lib) min_sample ''ball_tree'' ''haversine'')
                (radians coords) = Inl e \<longrightarrow>
              dbscan_clustering lib coords min_sample max_distance epsilon = Inl e)
         \<and> (\<forall>centers db. dbscan_clustering lib coords min_sample max_distance epsilon
                 = Inr (centers, db) \<longrightarrow>
               eps db = max_distance / KM_PER_RADIAN lib \<and> min_samples db = min_sample
               \<and> algorithm db = ''ball_tree'' \<and> metric db = ''haversine''
               \<and> DBSCAN_fit lib
                    (DBSCAN (max_distance / KM_PER_RADIAN lib) min_sample ''ball_tree''
                       ''haversine'')
                    (radians coords) = Inr (db_labels db))
         \<and> dbscan_clustering lib coords min_sample max_distance epsilon
             = dbscan_fit_centers lib
                 (DBSCAN (max_distance / KM_PER_RADIAN lib) min_sample ''ball_tree'' ''haversine'')
                 coords
         \<and> (max_distance = 0 \<longrightarrow>
              dbscan_clustering lib coords min_sample max_distance epsilon
                = dbscan_fit_centers lib (DBSCAN 0 min_sample ''ball_tree'' ''haversine'') coords)"
proof -
  let ?db0 = "DBSCAN (max_distance / KM_PER_RADIAN lib) min_sample ''ball_tree'' ''haversine''"
  from assms have run: "dbscan_clustering lib coords min_sample max_distance epsilon
      = dbscan_fit_centers lib ?db0 coords"
    by (auto simp: dbscan_clustering_def)
  have fails: "\<forall>e. DBSCAN_fit lib ?db0 (radians coords) = Inl e \<longrightarrow>
      dbscan_fit_centers lib ?db0 coords = Inl e"
    by (simp add: dbscan_fit_centers_def)
  have returns: "\<forall>centers db. dbscan_fit_centers lib ?db0 coords = Inr (centers, db) \<longrightarrow>
      eps db = max_distance / KM_PER_RADIAN lib \<and> min_samples db = min_sample
      \<and> algorithm db = ''ball_tree'' \<and> metric db = ''haversine''
      \<and> DBSCAN_fit lib ?db0 (radians coords) = Inr (db_labels db)"
    by (auto simp: dbscan_fit_centers_def DBSCAN_def Let_def split: sum.splits if_splits)
  have zero: "max_distance = 0 \<longrightarrow> dbscan_fit_centers lib ?db0 coords
      = dbscan_fit_centers lib (DBSCAN 0 min_sample ''ball_tree'' ''haversine'') coords"
    by simp
  from fails returns zero show ?thesis
    unfolding run by (intro conjI refl)
qed

text \<open>The theorem at \<^verbatim>\<open>epsilon=0\<close> and \<^verbatim>\<open>max_distance=30\<close>: with a library that fits only the
  radius \<open>30 / 6371.0088\<close> the call returns, and with one that fits only the radius 5 it
  raises.\<close>

theorem dbscan_clustering_falsy_epsilon_witness:
  "dbscan_clustering (probe_library (30 / (63710088 / 10000))) [(1, 2), (3, 4)] 1 30 (Some 0)
     = Inr ([(1, 2), (3, 4)],
            \<lparr>eps = 30 / (63710088 / 10000), min_samples = 1, algorithm = ''ball_tree'',
             metric = ''haversine'', db_labels = [0, 1]\<rparr>)
   \<and> dbscan_clustering (probe_library 5) [(1, 2), (3, 4)] 1 30 (Some 0) = Inl ValueError"
proof -
  let ?r = "30 / (63710088 / 10000) :: real"
  have km: "KM_PER_RADIAN (probe_library r) = 63710088 / 10000" for r
    by (simp add: probe_library_def stub_library_def)
  have nz: "KM_PER_RADIAN (probe_library r) \<noteq> 0" for r
    by (simp add: km)
  have falsy: "Some (0::real) = None \<or> Some (0::real) = Some 0"
    by simp
  note good = dbscan_clustering_falsy_epsilon [OF falsy nz,
      of ?r 30 1 "[(1, 2), (3, 4)]", THEN conjunct2, THEN conjunct2, THEN conjunct1]
  note bad = dbscan_clustering_falsy_epsilon [OF falsy nz,
      of 5 30 1 "[(1, 2), (3, 4)]", THEN conjunct1, THEN spec, of ValueError]
  have "dbscan_fit_centers (probe_library ?r) (DBSCAN ?r 1 ''ball_tree'' ''haversine'')
          [(1, 2), (3, 4)]
      = Inr ([(1, 2), (3, 4)],
            \<lparr>eps = ?r, min_samples = 1, algorithm = ''ball_tree'',
             metric = ''haversine'', db_labels = [0, 1]\<rparr>)"
    by (simp add: dbscan_fit_centers_def DBSCAN_def probe_library_def stub_library_def
        radians_def get_centermost_point_def Let_def upt_rec)
  with good have "dbscan_clustering (probe_library ?r) [(1, 2), (3, 4)] 1 30 (Some 0)
      = Inr ([(1, 2), (3, 4)],
            \<lparr>eps = ?r, min_samples = 1, algorithm = ''ball_tree'',
             metric = ''haversine'', db_labels = [0, 1]\<rparr>)"
    by (simp add: km)
  moreover have "DBSCAN_fit (probe_library 5)
      (DBSCAN (30 / KM_PER_RADIAN (probe_library 5)) 1 ''ball_tree'' ''haversine'')
      (radians [(1, 2), (3, 4)]) = Inl ValueError"
    by (simp add: probe_library_def stub_library_def DBSCAN_def)
  with bad have "dbscan_clustering (probe_library 5) [(1, 2), (3, 4)] 1 30 (Some 0)
      = Inl ValueError"
    by (rule mp)
  ultimately show ?thesis by (intro conjI)
qed

text \<open>Claim C10 as stated (a caller can never request a zero epsilon through this interface) is
  false at \<^verbatim>\<open>max_distance=0\<close>: with \<^verbatim>\<open>epsilon=0\<close> or \<^verbatim>\<open>epsilon=None\<close> the estimator handed to the
  library has radius \<open>0 / KM_PER_RADIAN = 0\<close>. A library that fits only the radius 0 fits it.\<close>

theorem dbscan_clustering_zero_radius:
  "dbscan_clustering (probe_library 0) [(1, 2), (3, 4)] 1 0 (Some 0)
     = Inr ([(1, 2), (3, 4)],
            \<lparr>eps = 0, min_samples = 1, algorithm = ''ball_tree'', metric = ''haversine'',
             db_labels = [0, 1]\<rparr>)
   \<and> dbscan_clustering (probe_library 0) [(1, 2), (3, 4)] 1 0 None
     = Inr ([(1, 2), (3, 4)],
            \<lparr>eps = 0, min_samples = 1, algorithm = ''ball_tree'', metric = ''haversine'',
             db_labels = [0, 1]\<rparr>)"
  by (simp add: dbscan_clustering_def dbscan_fit_centers_def DBSCAN_def probe_library_def
      stub_library_def radians_def get_centermost_point_def Let_def upt_rec)

text \<open>A non-zero \<open>epsilon\<close> is the radius used.\<close>

lemma dbscan_clustering_given_epsilon:
  "e \<noteq> 0 \<Longrightarrow> dbscan_clustering lib coords min_sample max_distance (Some e)
     = dbscan_fit_centers lib (DBSCAN e min_sample ''ball_tree'' ''haversine'') coords"
  by (simp add: dbscan_clustering_def)

subsection \<open>Bucket reduction\<close>

lemma collect_map_Inr:
  "(\<And>x. x \<in> set xs \<Longrightarrow> f x = Inr (g x)) \<Longrightarrow> collect (map f xs) = Inr (map g xs)"
  by (induction xs) auto

lemma set_unique [simp]: "set (unique xs) = set xs"
  by (induction xs) auto

lemma distinct_unique [simp]: "distinct (unique xs)"
  by (induction xs) auto

lemma list_index_mem: "x \<in> set xs \<Longrightarrow> list_index xs x = Inr (first_occurrence xs x)"
  by (induction xs) (auto simp: first_occurrence_def)

lemma first_occurrence_less: "x \<in> set xs \<Longrightarrow> first_occurrence xs x < length xs"
  unfolding first_occurrence_def
  by (induction xs) auto

lemma nth_first_occurrence: "x \<in> set xs \<Longrightarrow> xs ! first_occurrence xs x = x"
  unfolding first_occurrence_def
  by (induction xs) auto

lemma first_occurrence_filter:
  "P a \<Longrightarrow> P b \<Longrightarrow> a \<in> set xs \<Longrightarrow> b \<in> set xs \<Longrightarrow>
   (first_occurrence (filter P xs) a < first_occurrence (filter P xs) b)
     = (first_occurrence xs a < first_occurrence xs b)"
  unfolding first_occurrence_def
  by (induction xs) auto

text \<open>\<open>unique\<close> keeps the order of first occurrences.\<close>

lemma first_occurrence_unique:
  "a \<in> set xs \<Longrightarrow> b \<in> set xs \<Longrightarrow>
   (first_occurrence (unique xs) a < first_occurrence (unique xs) b)
     = (first_occurrence xs a < first_occurrence xs b)"
proof (induction xs)
  case Nil
  then show ?case by simp
next
  case (Cons x xs)
  show ?case
  proof (cases "a = x \<or> b = x")
    case True
    then show ?thesis by (auto simp: first_occurrence_def)
  next
    case False
    with Cons.prems have mem: "a \<in> set xs" "b \<in> set xs" and ne: "a \<noteq> x" "b \<noteq> x"
      by auto
    have "(first_occurrence (filter (\<lambda>y. y \<noteq> x) (unique xs)) a
            < first_occurrence (filter (\<lambda>y. y \<noteq> x) (unique xs)) b)
          = (first_occurrence (unique xs) a < first_occurrence (unique xs) b)"
      using mem ne by (intro first_occurrence_filter) auto
    with Cons.IH [OF mem] ne show ?thesis
      by (simp add: first_occurrence_def)
  qed
qed

text \<open>The list comprehension of lines 206--209 never raises, and its value in closed form.\<close>

lemma cluster_labels_eq:
  "cluster_labels buckets =
     Inr (map (\<lambda>b. if count_list buckets b \<le> 5 then - 1
                      else int (first_occurrence (unique buckets) b)) buckets)"
  unfolding cluster_labels_def Let_def
  by (rule collect_map_Inr)
     (simp add: convert_to_cluster_number_def groupby_size_def list_index_mem)

text \<open>Claim C3. A record whose bucket holds at most 5 records (the threshold is the literal 5
  of line 202) gets cluster id \<open>-1\<close>, whatever the bucket's index; a record whose bucket holds
  exactly 6 records does not get \<open>-1\<close>. The list comprehension raises nothing.\<close>

theorem small_bucket_is_noise:
  "i < length buckets \<Longrightarrow>
   \<exists>ids. cluster_labels buckets = Inr ids \<and> length ids = length buckets \<and>
     (count_list buckets (buckets ! i) \<le> 5 \<longrightarrow> ids ! i = - 1) \<and>
     (count_list buckets (buckets ! i) = 6 \<longrightarrow> ids ! i \<noteq> - 1)"
  by (simp add: cluster_labels_eq)

text \<open>The theorem at seven records with the bucket keys \<open>a, b, b, b, b, b,
  b\<close>: the bucket \<open>a\<close> of one record is noise, the bucket \<open>b\<close> of
  six records is not.\<close>

theorem small_bucket_is_noise_witness:
  "\<exists>ids. cluster_labels [''a'', ''b'', ''b'', ''b'', ''b'', ''b'', ''b''] = Inr ids
      \<and> length ids = 7 \<and> ids ! 0 = - 1 \<and> ids ! 1 \<noteq> - 1"
proof -
  let ?bs = "[''a'', ''b'', ''b'', ''b'', ''b'', ''b'', ''b'']"
  have c0: "count_list ?bs (?bs ! 0) \<le> 5" and c1: "count_list ?bs (?bs ! 1) = 6"
    by simp_all
  from small_bucket_is_noise [of 0 ?bs] obtain ids where
    ids: "cluster_labels ?bs = Inr ids" "length ids = length ?bs" "ids ! 0 = - 1"
    using c0 by auto
  from small_bucket_is_noise [of 1 ?bs] obtain ids' where
    ids': "cluster_labels ?bs = Inr ids'" "ids' ! 1 \<noteq> - 1"
    using c1 by auto
  from ids ids' have "ids' = ids" by simp
  with ids ids' show ?thesis by auto
qed

text \<open>Claim C2, as amended. The list comprehension raises nothing and gives every record exactly
  one cluster id. The id of a record in a surviving bucket (population above 5) is the position of
  its bucket key in the first-occurrence enumeration of all distinct bucket keys, surviving or
  not: the ids of the surviving buckets lie in \<open>{0 .. N-1}\<close> for \<open>N\<close> the number of all distinct
  keys, distinct keys get distinct ids, and ids increase with the first occurrence of the key
  in the record list.\<close>

theorem cluster_ids_first_occurrence_index:
  "\<exists>ids. cluster_labels buckets = Inr ids \<and> length ids = length buckets \<and>
     (\<forall>i<length buckets. 5 < count_list buckets (buckets ! i) \<longrightarrow>
        0 \<le> ids ! i \<and> ids ! i < int (length (unique buckets)) \<and>
        unique buckets ! nat (ids ! i) = buckets ! i) \<and>
     (\<forall>i<length buckets. \<forall>j<length buckets.
        5 < count_list buckets (buckets ! i) \<longrightarrow> 5 < count_list buckets (buckets ! j) \<longrightarrow>
        (ids ! i < ids ! j)
          = (first_occurrence buckets (buckets ! i) < first_occurrence buckets (buckets ! j)))"
  by (simp add: cluster_labels_eq first_occurrence_unique first_occurrence_less
        nth_first_occurrence)

text \<open>The theorem at seven records with the bucket keys \<open>a, b, b, b, b, b,
  b\<close>, for the record at position 1.\<close>

theorem cluster_ids_first_occurrence_index_witness:
  "\<exists>ids. cluster_labels [''a'', ''b'', ''b'', ''b'', ''b'', ''b'', ''b''] = Inr ids
      \<and> length ids = 7 \<and> 0 \<le> ids ! 1 \<and> ids ! 1 < 2
      \<and> unique [''a'', ''b'', ''b'', ''b'', ''b'', ''b'', ''b''] ! nat (ids ! 1) = ''b''"
proof -
  let ?bs = "[''a'', ''b'', ''b'', ''b'', ''b'', ''b'', ''b'']"
  have c1: "5 < count_list ?bs (?bs ! 1)" and l: "(1::nat) < length ?bs"
    and u: "int (length (unique ?bs)) = 2"
    by simp_all
  from cluster_ids_first_occurrence_index [of ?bs] obtain ids where
    ids: "cluster_labels ?bs = Inr ids" "length ids = length ?bs"
      "\<forall>i<length ?bs. 5 < count_list ?bs (?bs ! i) \<longrightarrow>
        0 \<le> ids ! i \<and> ids ! i < int (length (unique ?bs)) \<and> unique ?bs ! nat (ids ! i) = ?bs ! i"
    by blast
  from ids(3) l c1 have "0 \<le> ids ! 1 \<and> ids ! 1 < int (length (unique ?bs)) \<and>
      unique ?bs ! nat (ids ! 1) = ?bs ! 1"
    by blast
  with ids(1,2) u show ?thesis by auto
qed

text \<open>Claim C2 as stated (the ids of the surviving buckets are exactly \<open>0 .. K-1\<close> for \<open>K\<close> the
  number of surviving buckets) is false for seven records with the bucket keys
  \<open>a, b, b, b, b, b, b\<close>: the only surviving bucket \<open>b\<close> gets id 1, not 0.\<close>

theorem cluster_ids_not_onto_surviving_range:
  "cluster_labels [''a'', ''b'', ''b'', ''b'', ''b'', ''b'', ''b''] = Inr [- 1, 1, 1, 1, 1, 1, 1]
   \<and> surviving [''a'', ''b'', ''b'', ''b'', ''b'', ''b'', ''b''] = [''b'']
   \<and> (1::int) \<notin> {0 ..< int (length (surviving [''a'', ''b'', ''b'', ''b'', ''b'', ''b'', ''b'']))}"
  by (simp add: cluster_labels_eq surviving_def first_occurrence_def)

subsection \<open>Trajectory simplification\<close>

lemma argmax_first_less: "ys \<noteq> [] \<Longrightarrow> argmax_first f ys < length ys"
  by (induction f ys rule: argmax_first.induct) (auto simp: Let_def)

lemma argmax_first_max: "i < length ys \<Longrightarrow> f (ys ! i) \<le> f (ys ! argmax_first f ys)"
proof (induction f ys arbitrary: i rule: argmax_first.induct)
  case (3 f x y ys)
  then show ?case
    by (cases i) (auto simp: Let_def intro: order_trans)
qed auto

lemma argmax_first_first: "i < argmax_first f ys \<Longrightarrow> f (ys ! i) < f (ys ! argmax_first f ys)"
proof (induction f ys arbitrary: i rule: argmax_first.induct)
  case (3 f x y ys)
  then show ?case
    using argmax_first_max [of _ "y # ys" f]
    apply (cases i) apply (auto simp: Let_def split: if_splits)
    done
qed auto

lemma argmax_first_Cons:
  "ys \<noteq> [] \<Longrightarrow> argmax_first f (x # ys)
     = (let j = argmax_first f ys in if f (ys ! j) \<le> f x then 0 else Suc j)"
  by (cases ys) simp_all

lemma argmax_first_head:
  assumes "\<forall>b\<in>set bs. f b \<le> f m"
  shows "argmax_first f (m # bs) = 0"
proof (cases "bs = []")
  case True
  then show ?thesis by simp
next
  case False
  then have "bs ! argmax_first f bs \<in> set bs"
    by (simp add: argmax_first_less)
  with assms have "f (bs ! argmax_first f bs) \<le> f m" by blast
  with False show ?thesis by (simp add: argmax_first_Cons)
qed

lemma argmax_first_append:
  "\<forall>a\<in>set as. f a < f m \<Longrightarrow> \<forall>b\<in>set bs. f b \<le> f m \<Longrightarrow>
   argmax_first f (as @ m # bs) = length as"
proof (induction as)
  case Nil
  then show ?case by (simp add: argmax_first_head)
next
  case (Cons a as)
  then have j: "argmax_first f (as @ m # bs) = length as" by simp
  from Cons.prems have "\<not> f m \<le> f a" by auto
  with j show ?case by (simp add: argmax_first_Cons)
qed

lemma set_dp_inner: "set (dp_inner d e a ys b) \<subseteq> set ys"
proof (induction d e a ys b rule: dp_inner.induct)
  case (1 d e a ys b)
  show ?case
  proof (cases "ys \<noteq> [] \<and> e < d a b (ys ! argmax_first (d a b) ys)")
    case False
    then show ?thesis by (auto simp: dp_inner.simps [of d e a ys b] Let_def)
  next
    case True
    let ?j = "argmax_first (d a b) ys"
    from True have j: "?j < length ys" by (simp add: argmax_first_less)
    have A: "set (dp_inner d e a (take ?j ys) (ys ! ?j)) \<subseteq> set (take ?j ys)"
      using True by (intro "1.IH"(1)) auto
    have B: "set (dp_inner d e (ys ! ?j) (drop (Suc ?j) ys) b) \<subseteq> set (drop (Suc ?j) ys)"
      using True by (intro "1.IH"(2)) auto
    have "dp_inner d e a ys b = dp_inner d e a (take ?j ys) (ys ! ?j) @ [ys ! ?j]
            @ dp_inner d e (ys ! ?j) (drop (Suc ?j) ys) b"
      using True by (simp add: dp_inner.simps [of d e a ys b] Let_def)
    with A B j show ?thesis
      using set_take_subset [of ?j ys] set_drop_subset [of "Suc ?j" ys] by auto
  qed
qed

lemma dp_inner_idem: "dp_inner d e a (dp_inner d e a ys b) b = dp_inner d e a ys b"
proof (induction d e a ys b rule: dp_inner.induct)
  case (1 d e a ys b)
  show ?case
  proof (cases "ys \<noteq> [] \<and> e < d a b (ys ! argmax_first (d a b) ys)")
    case False
    then have "dp_inner d e a ys b = []"
      by (auto simp: dp_inner.simps [of d e a ys b] Let_def)
    then show ?thesis by (simp add: dp_inner.simps [of d e a "[]" b])
  next
    case True
    let ?f = "d a b"
    let ?j = "argmax_first ?f ys"
    let ?m = "ys ! ?j"
    let ?A = "dp_inner d e a (take ?j ys) ?m"
    let ?B = "dp_inner d e ?m (drop (Suc ?j) ys) b"
    from True have j: "?j < length ys" by (simp add: argmax_first_less)
    have S: "dp_inner d e a ys b = ?A @ ?m # ?B"
      using True by (simp add: dp_inner.simps [of d e a ys b] Let_def)
    have IA: "dp_inner d e a ?A ?m = ?A"
      using True by (intro "1.IH"(1)) auto
    have IB: "dp_inner d e ?m ?B b = ?B"
      using True by (intro "1.IH"(2)) auto
    have before: "\<forall>x\<in>set ?A. ?f x < ?f ?m"
    proof
      fix x assume "x \<in> set ?A"
      then have "x \<in> set (take ?j ys)"
        using set_dp_inner [of d e a "take ?j ys" ?m] by auto
      then obtain i where "i < ?j" "x = ys ! i"
        using j by (auto simp: in_set_conv_nth)
      then show "?f x < ?f ?m" by (simp add: argmax_first_first)
    qed
    have after: "\<forall>x\<in>set ?B. ?f x \<le> ?f ?m"
    proof
      fix x assume "x \<in> set ?B"
      then have "x \<in> set (drop (Suc ?j) ys)"
        using set_dp_inner [of d e ?m "drop (Suc ?j) ys" b] by auto
      then have "x \<in> set ys" by (rule in_set_dropD)
      then obtain i where "i < length ys" "x = ys ! i"
        by (auto simp: in_set_conv_nth)
      then show "?f x \<le> ?f ?m" by (simp add: argmax_first_max)
    qed
    have k: "argmax_first ?f (?A @ ?m # ?B) = length ?A"
      using before after by (rule argmax_first_append)
    have "dp_inner d e a (?A @ ?m # ?B) b
            = dp_inner d e a ?A ?m @ [?m] @ dp_inner d e ?m ?B b"
      using True k by (simp add: dp_inner.simps [of d e a "?A @ ?m # ?B" b] Let_def)
    with S IA IB show ?thesis by simp
  qed
qed

lemma douglas_peucker_idem:
  "douglas_peucker d e (douglas_peucker d e xs) = douglas_peucker d e xs"
proof (cases "length xs < 3")
  case True
  then show ?thesis by (simp add: douglas_peucker_def)
next
  case False
  let ?I = "dp_inner d e (hd xs) (butlast (tl xs)) (last xs)"
  let ?S = "hd xs # ?I @ [last xs]"
  from False have S: "douglas_peucker d e xs = ?S"
    by (simp add: douglas_peucker_def)
  show ?thesis
  proof (cases "?I = []")
    case True
    with S show ?thesis by (simp add: douglas_peucker_def)
  next
    case nonempty: False
    then have "\<not> length ?S < 3" by (cases ?I) auto
    then have "douglas_peucker d e ?S
        = hd ?S # dp_inner d e (hd ?S) (butlast (tl ?S)) (last ?S) @ [last ?S]"
      by (simp only: douglas_peucker_def if_False)
    also have "\<dots> = hd xs # dp_inner d e (hd xs) ?I (last xs) @ [last xs]"
      by simp
    also have "\<dots> = ?S" by (simp only: dp_inner_idem)
    finally show ?thesis using S by simp
  qed
qed

text \<open>Claim C9. Simplification is idempotent, for every point sequence \<open>T\<close> and every tolerance
  \<open>e\<close>: \<open>simplify(simplify(T, e), e) = simplify(T, e)\<close>. It is a function of \<open>T\<close> and \<open>e\<close> alone.\<close>

theorem simplify_coordinator_idempotent:
  "simplify_coordinator (simplify_coordinator T e) e = simplify_coordinator T e"
  by (simp add: simplify_coordinator_def douglas_peucker_idem)


lemma simplify_coordinator_examples:
  "simplify_coordinator [(0, 0), (1, 1), (2, 2)] (1 / 10000) = [(0, 0), (2, 2)]"
  "simplify_coordinator [(0, 0), (1, 3), (2, 0)] (1 / 10000) = [(0, 0), (1, 3), (2, 0)]"
  by (simp_all add: simplify_coordinator_def douglas_peucker_def dp_inner.simps
      perpendicular_distance_def)

subsection \<open>Tokenisation\<close>

lemma str_int_examples: "str_int (- 1) = ''-1''" "str_int 120 = ''120''"
  by (simp_all add: str_int_def str_nat.simps digit_char_def)

text \<open>Claim C7, as amended. The token sequence of a trajectory is built from its entrance
  segment as sorted at line 136, not from the simplified segment: when the segment has at least
  two points it holds exactly one label per point of the segment, \<open>G\<close> followed by the corridor
  id the classifier gives that point, in the segment's order of decreasing distance-remaining;
  when the segment has fewer than two points it is the single label \<open>G-1\<close>.\<close>

theorem tokens_of_entrance_segment:
  "tokens lib km (entrance_trajectory rows fid)
     = (if 1 < length (entrance_rows rows fid)
        then map (\<lambda>r. ''G'' @ str_int (int (KMeans_predict lib km (Latitude r, Longitude r))))
               (entrance_rows rows fid)
        else [''G-1''])
   \<and> sorted_wrt (\<lambda>r s. DRemains s \<le> DRemains r) (entrance_rows rows fid)
   \<and> set (entrance_rows rows fid) = {r \<in> set rows. Flight_ID r = fid}
   \<and> length (entrance_rows rows fid) = length (filter (\<lambda>r. Flight_ID r = fid) rows)"
proof -
  have "sorted (map (\<lambda>r. - DRemains r) (entrance_rows rows fid))"
    by (simp add: entrance_rows_def)
  then have "sorted_wrt (\<lambda>r s. DRemains s \<le> DRemains r) (entrance_rows rows fid)"
    by (simp add: sorted_map)
  moreover have "str_int (- 1) = ''-1''"
    by (simp add: str_int_def str_nat.simps digit_char_def)
  ultimately show ?thesis
    by (simp add: tokens_def group_labels_def entrance_group_def entrance_trajectory_def
        entrance_rows_def comp_def)
qed

text \<open>Claim C7 as stated (one label per point of the simplified segment) is false for the
  segment \<open>(0, 0), (1, 1), (2, 2)\<close>: simplification with the module's tolerance 0.0001 keeps two
  points, the token sequence has three labels.\<close>

theorem tokens_not_of_simplified_segment:
  "\<forall>lib km. length (tokens lib km [(0, 0), (1, 1), (2, 2)]) = 3
      \<and> simplify_coordinator [(0, 0), (1, 1), (2, 2)] (1 / 10000) = [(0, 0), (2, 2)]
      \<and> length (tokens lib km [(0, 0), (1, 1), (2, 2)])
          \<noteq> length (simplify_coordinator [(0, 0), (1, 1), (2, 2)] (1 / 10000))"
  by (simp add: tokens_def group_labels_def entrance_group_def
      simplify_coordinator_def douglas_peucker_def dp_inner.simps perpendicular_distance_def)

subsection \<open>MinHash signatures, LSH queries and buckets\<close>

lemma min_hash_Min: "ts \<noteq> [] \<Longrightarrow> min_hash h ts = Min (h ` set ts)"
  by (cases ts) (simp_all add: min_hash_def Min.set_eq_fold [symmetric])

lemma min_hash_set: "set ts = set ts' \<Longrightarrow> min_hash h ts = min_hash h ts'"
proof (cases "ts = []")
  case True
  moreover assume "set ts = set ts'"
  ultimately have "ts' = []" by simp
  with True show ?thesis by simp
next
  case False
  moreover assume eq: "set ts = set ts'"
  ultimately have "ts' \<noteq> []" by auto
  with False eq show ?thesis by (simp add: min_hash_Min)
qed

lemma signature_set: "set ts = set ts' \<Longrightarrow> signature l ts = signature l ts'"
  by (simp add: signature_def min_hash_set [of ts ts'])

lemma set_insert_bands:
  "set (fold (\<lambda>i ix. ix (band l sig i :=
                      (if record_id \<in> set (ix (band l sig i)) then ix (band l sig i)
                       else ix (band l sig i) @ [record_id]))) is idx h)
     = set (idx h) \<union> (if \<exists>i\<in>set is. band l sig i = h then {record_id} else {})"
  by (induction "is" arbitrary: idx) auto

lemma set_insert_record:
  "set (insert_record l record_id sig idx h)
     = set (idx h) \<union> (if \<exists>i<bands l. band l sig i = h then {record_id} else {})"
  unfolding insert_record_def set_insert_bands by auto

lemma set_fold_insert_record:
  "set (fold (\<lambda>(record_id, sig) ix. insert_record l record_id sig ix) recs idx h)
     = set (idx h) \<union> {r. \<exists>sig. (r, sig) \<in> set recs \<and> (\<exists>i<bands l. band l sig i = h)}"
proof (induction recs arbitrary: idx)
  case Nil
  show ?case by simp
next
  case (Cons rec recs)
  obtain r sig where rec: "rec = (r, sig)" by (cases rec)
  have "set (fold (\<lambda>(record_id, sig) ix. insert_record l record_id sig ix) (rec # recs) idx h)
      = set (insert_record l r sig idx h)
          \<union> {r. \<exists>sig. (r, sig) \<in> set recs \<and> (\<exists>i<bands l. band l sig i = h)}"
    using Cons.IH [of "insert_record l r sig idx"] by (simp add: rec)
  also have "\<dots> = set (idx h)
      \<union> ((if \<exists>i<bands l. band l sig i = h then {r} else {})
          \<union> {r. \<exists>sig. (r, sig) \<in> set recs \<and> (\<exists>i<bands l. band l sig i = h)})"
    by (simp add: set_insert_record Un_assoc)
  also have "(if \<exists>i<bands l. band l sig i = h then {r} else {})
          \<union> {r. \<exists>sig. (r, sig) \<in> set recs \<and> (\<exists>i<bands l. band l sig i = h)}
      = {r'. \<exists>sig'. (r', sig') \<in> set (rec # recs) \<and> (\<exists>i<bands l. band l sig' i = h)}"
    unfolding rec by (cases "\<exists>i<bands l. band l sig i = h") auto
  finally show ?case .
qed

lemma set_query: "set (query l idx sig) = (\<Union>i<bands l. set (idx (band l sig i)))"
  by (auto simp: query_def)

text \<open>What a query returns once all records are inserted.\<close>

lemma set_duplicated:
  assumes "length record_ids = length groups" and "i < length groups"
  shows "set (duplicated_column l record_ids groups ! i)
     = {record_ids ! j | j. j < length groups \<and>
          (\<exists>a<bands l. \<exists>b<bands l. band l (signature l (groups ! j)) b
                                   = band l (signature l (groups ! i)) a)}"
proof -
  have zip: "(r, sig) \<in> set (zip record_ids (map (signature l) groups))
      \<longleftrightarrow> (\<exists>j<length groups. r = record_ids ! j \<and> sig = signature l (groups ! j))" for r sig
    using assms(1) by (auto simp: in_set_zip)
  show ?thesis
    using assms
    by (auto simp: duplicated_column_def compute_min_hash_lsh_over_data_def Let_def
        query_duplicated_record_def set_query set_fold_insert_record zip)
qed

lemma length_buckets_column [simp]:
  "length (buckets_column l record_ids groups) = length groups"
  by (simp add: buckets_column_def duplicated_column_def compute_min_hash_lsh_over_data_def Let_def)

lemma hash_column_nth:
  "i < length groups \<Longrightarrow> hash_column l record_ids groups ! i = signature l (groups ! i)"
  by (simp add: hash_column_def compute_min_hash_lsh_over_data_def Let_def)

lemma buckets_column_nth:
  "i < length groups \<Longrightarrow> buckets_column l record_ids groups ! i
     = join ''_'' (query l (fst (compute_min_hash_lsh_over_data l record_ids groups))
                     (signature l (groups ! i)))"
  by (simp add: buckets_column_def duplicated_column_def compute_min_hash_lsh_over_data_def
      Let_def query_duplicated_record_def)

lemma count_list_ge_card:
  assumes "I \<subseteq> {..<length xs}" and "\<forall>i\<in>I. xs ! i = k"
  shows "card I \<le> count_list xs k"
proof -
  have "I \<subseteq> {i. i < length xs \<and> xs ! i = k}" using assms by auto
  then have "card I \<le> card {i. i < length xs \<and> xs ! i = k}"
    by (intro card_mono) auto
  also have "\<dots> = length (filter (\<lambda>y. y = k) xs)"
    by (simp add: length_filter_conv_card)
  also have "\<dots> = count_list xs k"
    by (induction xs) auto
  finally show ?thesis .
qed

text \<open>Claim C4. For records inserted under ids of the same column length, with at least one
  band: any two records whose token sets are identical have identical signatures, the query
  result of each contains the other's id, and they receive the same bucket key; six or more
  such records all receive one and the same cluster id, different from \<open>-1\<close>.\<close>

theorem identical_token_sets_share_cluster:
  assumes len: "length record_ids = length groups" and b: "0 < bands l"
    and I: "I \<subseteq> {..<length groups}"
    and same: "\<forall>i\<in>I. \<forall>j\<in>I. set (groups ! i) = set (groups ! j)"
  shows "(\<forall>i\<in>I. \<forall>j\<in>I.
            hash_column l record_ids groups ! i = hash_column l record_ids groups ! j
          \<and> record_ids ! j \<in> set (duplicated_column l record_ids groups ! i)
          \<and> buckets_column l record_ids groups ! i = buckets_column l record_ids groups ! j)
       \<and> (6 \<le> card I \<longrightarrow>
            (\<exists>ids c. cluster_labels (buckets_column l record_ids groups) = Inr ids
                \<and> c \<noteq> - 1 \<and> (\<forall>i\<in>I. ids ! i = c)))"
proof -
  let ?B = "buckets_column l record_ids groups"
  have sig: "signature l (groups ! i) = signature l (groups ! j)" if "i \<in> I" "j \<in> I" for i j
    using same that by (intro signature_set) blast
  have pair: "hash_column l record_ids groups ! i = hash_column l record_ids groups ! j
          \<and> record_ids ! j \<in> set (duplicated_column l record_ids groups ! i)
          \<and> ?B ! i = ?B ! j" if "i \<in> I" "j \<in> I" for i j
  proof -
    from that I have lt: "i < length groups" "j < length groups" by auto
    have "record_ids ! j \<in> set (duplicated_column l record_ids groups ! i)"
      unfolding set_duplicated [OF len lt(1)]
      using lt(2) b sig [OF that] by auto
    with lt sig [OF that] show ?thesis
      by (simp add: hash_column_nth buckets_column_nth)
  qed
  have six: "\<exists>ids c. cluster_labels ?B = Inr ids \<and> c \<noteq> - 1 \<and> (\<forall>i\<in>I. ids ! i = c)"
    if card: "6 \<le> card I"
  proof -
    from card have "I \<noteq> {}" by auto
    then obtain i0 where i0: "i0 \<in> I" by blast
    let ?k = "?B ! i0"
    have all: "\<forall>i\<in>I. ?B ! i = ?k" using pair i0 by blast
    have "I \<subseteq> {..<length ?B}" using I by simp
    then have "card I \<le> count_list ?B ?k" using all by (rule count_list_ge_card)
    with card have big: "\<not> count_list ?B ?k \<le> 5" by simp
    let ?c = "int (first_occurrence (unique ?B) ?k)"
    have "\<forall>i\<in>I. map (\<lambda>b. if count_list ?B b \<le> 5 then - 1
                      else int (first_occurrence (unique ?B) b)) ?B ! i = ?c"
      using all big I by auto
    moreover have "?c \<noteq> - 1" by simp
    ultimately show ?thesis
      unfolding cluster_labels_eq by blast
  qed
  from pair six show ?thesis by blast
qed

text \<open>The theorem at the seven records above, for the six records with the token set
  \<open>{G1, G2, G3}\<close>.\<close>

theorem identical_token_sets_share_cluster_witness:
  "hash_column demo_lsh demo_ids demo_groups ! 0 = hash_column demo_lsh demo_ids demo_groups ! 1
   \<and> demo_ids ! 1 \<in> set (duplicated_column demo_lsh demo_ids demo_groups ! 0)
   \<and> demo_ids ! 0 \<in> set (duplicated_column demo_lsh demo_ids demo_groups ! 1)
   \<and> buckets_column demo_lsh demo_ids demo_groups ! 0
       = buckets_column demo_lsh demo_ids demo_groups ! 1
   \<and> (\<exists>ids c. cluster_labels (buckets_column demo_lsh demo_ids demo_groups) = Inr ids
         \<and> c \<noteq> - 1 \<and> ids ! 0 = c \<and> ids ! 1 = c \<and> ids ! 2 = c \<and> ids ! 3 = c
         \<and> ids ! 4 = c \<and> ids ! 5 = c)"
proof -
  let ?I = "{0, 1, 2, 3, 4, 5 :: nat}"
  have len: "length demo_ids = length demo_groups"
    by (simp add: demo_ids_def demo_groups_def)
  have b: "0 < bands demo_lsh"
    by (simp add: demo_lsh_def)
  have I: "?I \<subseteq> {..<length demo_groups}"
    by (simp add: demo_groups_def)
  have same: "\<forall>i\<in>?I. \<forall>j\<in>?I. set (demo_groups ! i) = set (demo_groups ! j)"
    by (simp add: demo_groups_def insert_commute)
  have card: "6 \<le> card ?I" by simp
  note inst = identical_token_sets_share_cluster [OF len b I same]
  from inst have pairs: "\<forall>i\<in>?I. \<forall>j\<in>?I.
            hash_column demo_lsh demo_ids demo_groups ! i
              = hash_column demo_lsh demo_ids demo_groups ! j
          \<and> demo_ids ! j \<in> set (duplicated_column demo_lsh demo_ids demo_groups ! i)
          \<and> buckets_column demo_lsh demo_ids demo_groups ! i
              = buckets_column demo_lsh demo_ids demo_groups ! j"
    by (rule conjunct1)
  have m: "(0::nat) \<in> ?I" "(1::nat) \<in> ?I" "(2::nat) \<in> ?I" "(3::nat) \<in> ?I"
    "(4::nat) \<in> ?I" "(5::nat) \<in> ?I"
    by simp_all
  from inst have "6 \<le> card ?I \<longrightarrow>
      (\<exists>ids c. cluster_labels (buckets_column demo_lsh demo_ids demo_groups) = Inr ids
          \<and> c \<noteq> - 1 \<and> (\<forall>i\<in>?I. ids ! i = c))"
    by (rule conjunct2)
  with card obtain ids c where
    ids: "cluster_labels (buckets_column demo_lsh demo_ids demo_groups) = Inr ids"
      "c \<noteq> - 1" and all: "\<forall>i\<in>?I. ids ! i = c"
    by blast
  note p01 = pairs [THEN bspec, OF m(1), THEN bspec, OF m(2)]
  note p10 = pairs [THEN bspec, OF m(2), THEN bspec, OF m(1)]
  note eqs = all [THEN bspec, OF m(1)] all [THEN bspec, OF m(2)] all [THEN bspec, OF m(3)]
    all [THEN bspec, OF m(4)] all [THEN bspec, OF m(5)] all [THEN bspec, OF m(6)]
  from ids eqs have "\<exists>ids c. cluster_labels (buckets_column demo_lsh demo_ids demo_groups) = Inr ids
         \<and> c \<noteq> - 1 \<and> ids ! 0 = c \<and> ids ! 1 = c \<and> ids ! 2 = c \<and> ids ! 3 = c
         \<and> ids ! 4 = c \<and> ids ! 5 = c"
    by blast
  with p01 p10 show ?thesis by blast
qed

text \<open>The seven records end to end.\<close>

lemma demo_pipeline:
  "buckets_column demo_lsh demo_ids demo_groups
     = [''0_1_2_3_4_5'', ''0_1_2_3_4_5'', ''0_1_2_3_4_5'', ''0_1_2_3_4_5'', ''0_1_2_3_4_5'',
        ''0_1_2_3_4_5'', ''6'']"
  by (simp add: buckets_column_def duplicated_column_def compute_min_hash_lsh_over_data_def
      query_duplicated_record_def query_def insert_record_def band_def signature_def min_hash_def
      demo_lsh_def demo_ids_def demo_groups_def Let_def upt_rec)

lemma demo_labels:
  "cluster_labels (buckets_column demo_lsh demo_ids demo_groups) = Inr [0, 0, 0, 0, 0, 0, - 1]"
  unfolding demo_pipeline
  by (simp add: cluster_labels_eq first_occurrence_def)

subsection \<open>Evaluation\<close>

lemma stub_silhouette_contract: "silhouette_contract stub_library"
  by (simp add: silhouette_contract_def stub_library_def admissible_labels_def)

lemma distinct_count_list_le: "distinct xs \<Longrightarrow> count_list xs x \<le> 1"
  by (induction xs) (auto simp: count_list_0_iff)

lemma cluster_labels_admissible:
  assumes labels: "cluster_labels buckets = Inr labels"
    and c1: "c1 \<in> set labels" and c2: "c2 \<in> set labels"
    and ne: "c1 \<noteq> c2" "c1 \<noteq> - 1"
  shows "admissible_labels labels"
proof -
  let ?g = "\<lambda>b. if count_list buckets b \<le> 5 then - 1
                      else int (first_occurrence (unique buckets) b)"
  from labels have eq: "labels = map ?g buckets"
    by (simp add: cluster_labels_eq)
  from c1 have "c1 \<in> ?g ` set buckets" by (simp add: eq)
  then obtain b where b: "c1 = ?g b" "b \<in> set buckets" by (rule imageE)
  have "\<not> count_list buckets b \<le> 5"
  proof
    assume "count_list buckets b \<le> 5"
    then have "?g b = - 1" by simp
    with b(1) ne(2) show False by simp
  qed
  then have "\<not> count_list buckets b \<le> 1" by simp
  then have "\<not> distinct buckets" using distinct_count_list_le [of buckets b] by auto
  then have "\<not> distinct labels" by (simp add: eq distinct_map)
  then have "length (remdups labels) \<noteq> length labels"
    using length_remdups_eq [of labels] remdups_id_iff_distinct [of labels] by blast
  with length_remdups_leq [of labels] have lt: "length (remdups labels) < length labels"
    by linarith
  from c1 c2 ne(1) have "{c1, c2} \<subseteq> set (remdups labels)" by simp
  then have "card {c1, c2} \<le> card (set (remdups labels))"
    by (intro card_mono) auto
  also have "\<dots> = length (remdups labels)"
    by (simp add: card_set)
  finally have "2 \<le> length (remdups labels)" using ne(1) by simp
  with lt show ?thesis by (simp add: admissible_labels_def)
qed

lemma compute_silhouette_score_ok:
  assumes "silhouette_contract lib" and "valid_distance_matrix X (length labels)"
    and "admissible_labels labels"
  shows "\<exists>s. compute_silhouette_score lib X labels = Inr s \<and> - 1 \<le> s \<and> s \<le> 1"
proof -
  from assms(1,2) have "if admissible_labels labels
         then \<exists>s. silhouette_score lib X labels = Inr s \<and> - 1 \<le> s \<and> s \<le> 1
         else silhouette_score lib X labels = Inl ValueError"
    unfolding silhouette_contract_def by blast
  with assms(3) show ?thesis by (simp add: compute_silhouette_score_def)
qed

text \<open>Claim C5, as amended. \<^verbatim>\<open>compute_silhouette_score\<close> passes the labels unfiltered to the
  library, so the noise label \<open>-1\<close> counts as a label. With a library that meets
  \<open>silhouette_contract\<close> and a valid distance matrix: it returns a score in \<open>[-1, 1]\<close> when the
  number of distinct labels, \<open>-1\<close> included, lies between 2 and the number of records minus 1,
  and fails with the library's \<^verbatim>\<open>ValueError\<close> otherwise. For the labels the bucket reduction
  produces, two distinct non-noise labels are enough for a score in \<open>[-1, 1]\<close>.\<close>

theorem compute_silhouette_score_labels:
  assumes "silhouette_contract lib" and "valid_distance_matrix X (length labels)"
  shows "(admissible_labels labels \<longrightarrow>
            (\<exists>s. compute_silhouette_score lib X labels = Inr s \<and> - 1 \<le> s \<and> s \<le> 1))
       \<and> (\<not> admissible_labels labels \<longrightarrow>
            compute_silhouette_score lib X labels = Inl ValueError)
       \<and> (\<forall>buckets c1 c2. cluster_labels buckets = Inr labels \<and> c1 \<in> set labels
              \<and> c2 \<in> set labels \<and> c1 \<noteq> c2 \<and> c1 \<noteq> - 1 \<and> c2 \<noteq> - 1 \<longrightarrow>
            (\<exists>s. compute_silhouette_score lib X labels = Inr s \<and> - 1 \<le> s \<and> s \<le> 1))"
proof -
  from assms have lib: "if admissible_labels labels
         then \<exists>s. silhouette_score lib X labels = Inr s \<and> - 1 \<le> s \<and> s \<le> 1
         else silhouette_score lib X labels = Inl ValueError"
    unfolding silhouette_contract_def by blast
  have ok: "admissible_labels labels \<longrightarrow>
            (\<exists>s. compute_silhouette_score lib X labels = Inr s \<and> - 1 \<le> s \<and> s \<le> 1)"
    using lib by (simp add: compute_silhouette_score_def)
  have fail: "\<not> admissible_labels labels \<longrightarrow>
            compute_silhouette_score lib X labels = Inl ValueError"
    using lib by (simp add: compute_silhouette_score_def)
  from ok fail show ?thesis
    using cluster_labels_admissible by blast
qed

lemma valid_zero_matrix: "valid_distance_matrix (zero_matrix n) n"
  by (simp add: valid_distance_matrix_def zero_matrix_def)

text \<open>The theorem with the stand-in library: a labelling with one noise record and one
  cluster of six is scored; a labelling of noise only, and one with as many labels as records,
  raise.\<close>

theorem compute_silhouette_score_labels_witness:
  "(\<exists>s. compute_silhouette_score stub_library (zero_matrix 7) [- 1, 1, 1, 1, 1, 1, 1] = Inr s
        \<and> - 1 \<le> s \<and> s \<le> 1)
   \<and> compute_silhouette_score stub_library (zero_matrix 3) [- 1, - 1, - 1] = Inl ValueError
   \<and> compute_silhouette_score stub_library (zero_matrix 2) [0, 1] = Inl ValueError"
proof -
  have v7: "valid_distance_matrix (zero_matrix 7) (length [- 1, 1, 1, 1, 1, 1, 1 :: int])"
    and v3: "valid_distance_matrix (zero_matrix 3) (length [- 1, - 1, - 1 :: int])"
    and v2: "valid_distance_matrix (zero_matrix 2) (length [0, 1 :: int])"
    by (simp_all add: valid_distance_matrix_def zero_matrix_def)
  have a7: "admissible_labels [- 1, 1, 1, 1, 1, 1, 1]"
    and a3: "\<not> admissible_labels [- 1, - 1, - 1]"
    and a2: "\<not> admissible_labels [0, 1]"
    by (simp_all add: admissible_labels_def)
  note t7 = compute_silhouette_score_labels [OF stub_silhouette_contract v7, THEN conjunct1]
  note t3 = compute_silhouette_score_labels [OF stub_silhouette_contract v3,
      THEN conjunct2, THEN conjunct1]
  note t2 = compute_silhouette_score_labels [OF stub_silhouette_contract v2,
      THEN conjunct2, THEN conjunct1]
  from t7 a7 have "\<exists>s. compute_silhouette_score stub_library (zero_matrix 7)
      [- 1, 1, 1, 1, 1, 1, 1] = Inr s \<and> - 1 \<le> s \<and> s \<le> 1"
    by (rule mp)
  moreover from t3 a3
  have "compute_silhouette_score stub_library (zero_matrix 3) [- 1, - 1, - 1] = Inl ValueError"
    by (rule mp)
  moreover from t2 a2
  have "compute_silhouette_score stub_library (zero_matrix 2) [0, 1] = Inl ValueError"
    by (rule mp)
  ultimately show ?thesis by (intro conjI)
qed

text \<open>Claim C5 as stated (fewer than two distinct non-noise labels make the evaluation fail with
  \<^verbatim>\<open>SilhouetteUndefinedError\<close>) is false for the labels \<open>-1, 1, 1, 1, 1, 1, 1\<close> that the bucket
  reduction gives seven records with bucket keys \<open>a, b, b, b, b, b, b\<close>: the only non-noise
  label is 1, and with no library that meets the contract does the evaluation fail.\<close>

theorem compute_silhouette_score_counts_noise:
  "cluster_labels [''a'', ''b'', ''b'', ''b'', ''b'', ''b'', ''b''] = Inr [- 1, 1, 1, 1, 1, 1, 1]
   \<and> \<not> (\<exists>lib. silhouette_contract lib \<and>
         (\<exists>e. compute_silhouette_score lib (zero_matrix 7) [- 1, 1, 1, 1, 1, 1, 1] = Inl e))"
proof
  show "cluster_labels [''a'', ''b'', ''b'', ''b'', ''b'', ''b'', ''b'']
      = Inr [- 1, 1, 1, 1, 1, 1, 1]"
    by (simp add: cluster_labels_eq first_occurrence_def)
  show "\<not> (\<exists>lib. silhouette_contract lib \<and>
         (\<exists>e. compute_silhouette_score lib (zero_matrix 7) [- 1, 1, 1, 1, 1, 1, 1] = Inl e))"
  proof
    assume "\<exists>lib. silhouette_contract lib \<and>
           (\<exists>e. compute_silhouette_score lib (zero_matrix 7) [- 1, 1, 1, 1, 1, 1, 1] = Inl e)"
    then obtain lib e where lib: "silhouette_contract lib"
      and e: "compute_silhouette_score lib (zero_matrix 7) [- 1, 1, 1, 1, 1, 1, 1] = Inl e"
      by blast
    have v: "valid_distance_matrix (zero_matrix 7) (length [- 1, 1, 1, 1, 1, 1, 1 :: int])"
      by (simp add: valid_distance_matrix_def zero_matrix_def)
    have a: "admissible_labels [- 1, 1, 1, 1, 1, 1, 1]"
      by (simp add: admissible_labels_def)
    from compute_silhouette_score_ok [OF lib v a] e show False by auto
  qed
qed

end
